theory Spec2Isabelle
  imports Main "HOL-Library.Char_ord" "HOL-Library.List_Lexorder" "HOL-Library.AList"
    "HOL-Library.Multiset" "HOL-Library.Word"
begin

section \<open>The document vault of \<open>app.py\<close>\<close>

text \<open>
  The program is a Flask application: a login callback that puts a user into the session,
  and five routes (\<open>home\<close>, \<open>upload_file\<close>, \<open>download_file\<close>, \<open>preview_file\<close>,
  \<open>delete_file\<close>) over two folders, \<open>uploads\<close> and \<open>metadata\<close>.

  Modelling decisions.
  \<^item> Python strings are \<open>string\<close>; the model covers ASCII text, where \<open>str.lower\<close> maps
    \<open>A\<close>..\<open>Z\<close> to \<open>a\<close>..\<open>z\<close> and leaves every other character alone.
  \<^item> The session is \<open>user option\<close>: \<open>None\<close> when \<open>"user" not in session\<close>.
  \<^item> A folder is an association list from file name to content, in the order in which
    \<open>os.listdir\<close> enumerates it. Writing a file is \<open>AList.update\<close>, \<open>os.remove\<close> is
    \<open>AList.delete\<close>, \<open>os.path.exists\<close> is a lookup. A name is one entry of its folder:
    what the host file system does with a name that contains a path separator is outside
    the model, and so are input/output faults of the host.
  \<^item> A metadata file either makes \<open>json.load\<close> raise (\<open>Damaged\<close>) or holds a JSON
    document (\<open>Parsed\<close>). JSON documents are null, booleans, integers, strings and objects;
    arrays and fractional numbers are not modelled.
  \<^item> An exception that no handler of the source catches reaches Flask, which answers with
    status 500: \<open>Server_error\<close>.
  \<^item> \<open>secure_filename\<close> (werkzeug) and the two readings of the clock
    (\<open>datetime.now().strftime("%Y%m%d_%H%M%S")\<close> in \<open>upload_file\<close>,
    \<open>datetime.now().isoformat()\<close> in \<open>save_file_metadata\<close>) are library calls; they are
    inputs of the model, collected in the record \<open>env\<close>. So is the answer of
    \<open>mimetypes.guess_type\<close>, from which \<open>send_file\<close> takes the content type.
  \<^item> Of the page that \<open>home\<close> renders, the model keeps the files listed, the preview
    buttons and the admin flag, and every exception that the template can raise.
\<close>

subsection \<open>Constants\<close>

definition ADMIN_ROLE :: string where
  "ADMIN_ROLE = ''Game.Lead.Admin''"

definition VIEWER_ROLE :: string where
  "VIEWER_ROLE = ''Game.Tester.Player''"

definition ALLOWED_EXTENSIONS :: "string list" where
  "ALLOWED_EXTENSIONS = [''txt'', ''pdf'', ''doc'', ''docx'', ''png'', ''jpg'', ''jpeg'']"

subsection \<open>Strings\<close>

definition lower_char :: "char \<Rightarrow> char" where
  "lower_char c =
     (case map_of (zip ''ABCDEFGHIJKLMNOPQRSTUVWXYZ'' ''abcdefghijklmnopqrstuvwxyz'') c of
        None \<Rightarrow> c
      | Some l \<Rightarrow> l)"

definition lower :: "string \<Rightarrow> string" where
  "lower s = map lower_char s"

text \<open>\<open>needle in hay\<close> on Python strings: \<open>needle\<close> occurs as a contiguous part.\<close>

fun str_in :: "string \<Rightarrow> string \<Rightarrow> bool" where
  "str_in needle [] = (needle = [])"
| "str_in needle (c # cs) = (take (length needle) (c # cs) = needle \<or> str_in needle cs)"

definition endswith :: "string \<Rightarrow> string \<Rightarrow> bool" where
  "endswith s suffix = (length suffix \<le> length s \<and> drop (length s - length suffix) s = suffix)"

text \<open>\<open>s.split("@")[0]\<close>: the part before the first \<open>@\<close>, all of \<open>s\<close> when there is none.\<close>

definition split_at_first :: "string \<Rightarrow> string" where
  "split_at_first s = takeWhile (\<lambda>c. c \<noteq> CHR ''@'') s"

text \<open>\<open>filename.rsplit('.', 1)[1]\<close>, read only when \<open>'.' in filename\<close>: the part after
  the last dot.\<close>

definition rsplit_ext :: "string \<Rightarrow> string" where
  "rsplit_ext filename = rev (takeWhile (\<lambda>c. c \<noteq> CHR ''.'') (rev filename))"

definition allowed_file :: "string \<Rightarrow> bool" where
  "allowed_file filename =
     (CHR ''.'' \<in> set filename \<and> lower (rsplit_ext filename) \<in> set ALLOWED_EXTENSIONS)"

definition is_image :: "string \<Rightarrow> bool" where
  "is_image filename =
     (let ext = (if CHR ''.'' \<in> set filename then lower (rsplit_ext filename) else '''')
      in ext \<in> set [''png'', ''jpg'', ''jpeg''])"

definition is_pdf :: "string \<Rightarrow> bool" where
  "is_pdf filename =
     (let ext = (if CHR ''.'' \<in> set filename then lower (rsplit_ext filename) else '''')
      in ext = ''pdf'')"

subsection \<open>Principals and the login callback\<close>

text \<open>The claims of the identity token that \<open>auth_callback\<close> reads; \<open>None\<close> is an absent
  claim.\<close>

record claims =
  c_name :: "string option"
  c_preferred_username :: "string option"
  c_oid :: "string option"
  c_roles :: "string list option"

text \<open>The dictionary stored as \<open>session["user"]\<close>.\<close>

record user =
  name :: "string option"
  preferred_username :: "string option"
  oid :: "string option"
  roles :: "string list"

definition get_user_roles :: "user \<Rightarrow> string list" where
  "get_user_roles user_data = roles user_data"

definition is_admin :: "user \<Rightarrow> bool" where
  "is_admin user_data = (ADMIN_ROLE \<in> set (get_user_roles user_data))"

definition is_viewer :: "user \<Rightarrow> bool" where
  "is_viewer user_data =
     (VIEWER_ROLE \<in> set (get_user_roles user_data) \<or> ADMIN_ROLE \<in> set (get_user_roles user_data))"

text \<open>Line 644 and the test of line 652: the lowered email contains the literal.\<close>

definition forced_admin :: "claims \<Rightarrow> bool" where
  "forced_admin cl =
     (let user_email = lower (case c_preferred_username cl of None \<Rightarrow> [] | Some e \<Rightarrow> e)
      in str_in ''shilpa.sureshkumar@outlook.com'' user_email)"

text \<open>Lines 648 to 658 of \<open>auth_callback\<close>: the roles written into the session.\<close>

definition callback_roles :: "claims \<Rightarrow> string list" where
  "callback_roles cl =
     (let roles0 = (case c_roles cl of None \<Rightarrow> [] | Some rs \<Rightarrow> rs)
      in if forced_admin cl then [''Game.Lead.Admin'']
         else if roles0 = [] then [''Game.Tester.Player'']
         else roles0)"

text \<open>Lines 660 to 665: the session entry.\<close>

definition callback_user :: "claims \<Rightarrow> user" where
  "callback_user cl =
     \<lparr>name = c_name cl, preferred_username = c_preferred_username cl, oid = c_oid cl,
      roles = callback_roles cl\<rparr>"

subsection \<open>Stored data\<close>

type_synonym bytes = "8 word list"

datatype json = JNull | JBool bool | JInt int | JStr string | JDict "(string \<times> json) list"

datatype meta_file = Damaged | Parsed json

datatype error =
  JSONDecodeError | AttributeError | TypeError | FileNotFoundError | UndefinedError | OverflowError

record vault =
  uploads :: "(string \<times> bytes) list"
  metadata :: "(string \<times> meta_file) list"

text \<open>What a route returns.\<close>

datatype response =
    Redirect_home
  | Login_page
  | Home_page user "json list" "bool list" bool
  | Body string nat
  | Jsonify bool "string option" nat
  | Send_file bytes bool string string
  | Server_error error

text \<open>
  \<open>Home_page u files buttons admin\<close> is the page of \<open>home\<close>: the user, the files listed,
  for each file whether its row has a preview button, and whether the admin controls are
  shown. \<open>Send_file content as_attachment download_name mimetype\<close> is the response that
  \<open>send_file\<close> builds.
\<close>

text \<open>Python's truth value of a JSON document; \<open>None\<close> is \<open>JNull\<close>.\<close>

fun truthy :: "json \<Rightarrow> bool" where
  "truthy JNull = False"
| "truthy (JBool b) = b"
| "truthy (JInt i) = (i \<noteq> 0)"
| "truthy (JStr s) = (s \<noteq> [])"
| "truthy (JDict d) = (d \<noteq> [])"

definition get_file_metadata :: "vault \<Rightarrow> string \<Rightarrow> error + json" where
  "get_file_metadata st filename =
     (case map_of (metadata st) (filename @ ''.json'') of
        None \<Rightarrow> Inr JNull
      | Some Damaged \<Rightarrow> Inl JSONDecodeError
      | Some (Parsed j) \<Rightarrow> Inr j)"

definition save_file_metadata ::
  "string \<Rightarrow> vault \<Rightarrow> string \<Rightarrow> string option \<Rightarrow> string \<Rightarrow> error + json \<times> vault" where
  "save_file_metadata now_iso st filename user_email original_filename =
     (case map_of (uploads st) filename of
        None \<Rightarrow> Inl FileNotFoundError
      | Some content \<Rightarrow>
          (let metadata_dict = JDict
                 [(''filename'', JStr filename),
                  (''original_filename'', JStr original_filename),
                  (''user_email'', (case user_email of None \<Rightarrow> JNull | Some e \<Rightarrow> JStr e)),
                  (''upload_date'', JStr now_iso),
                  (''size'', JInt (int (length content)))]
           in Inr (metadata_dict,
                   st\<lparr>metadata :=
                        AList.update (filename @ ''.json'') (Parsed metadata_dict) (metadata st)\<rparr>)))"

subsection \<open>Listing\<close>

text \<open>The loop of \<open>get_all_files\<close> over \<open>os.listdir(METADATA_FOLDER)\<close>: a file whose name
  does not end in \<open>.json\<close> is not opened, and the bare \<open>except: continue\<close> drops a file
  that \<open>json.load\<close> rejects.\<close>

fun load_all :: "(string \<times> meta_file) list \<Rightarrow> json list" where
  "load_all [] = []"
| "load_all ((metadata_file, content) # rest) =
     (if endswith metadata_file ''.json''
      then (case content of Parsed j \<Rightarrow> j # load_all rest | Damaged \<Rightarrow> load_all rest)
      else load_all rest)"

text \<open>The sort key \<open>lambda x: x.get('upload_date', '')\<close>; only a dictionary has \<open>get\<close>.\<close>

fun upload_date_key :: "json \<Rightarrow> error + json" where
  "upload_date_key (JDict d) =
     Inr (case map_of d ''upload_date'' of None \<Rightarrow> JStr [] | Some v \<Rightarrow> v)"
| "upload_date_key _ = Inl AttributeError"

fun keys_of :: "json list \<Rightarrow> error + json list" where
  "keys_of [] = Inr []"
| "keys_of (x # xs) =
     (case upload_date_key x of
        Inl e \<Rightarrow> Inl e
      | Inr k \<Rightarrow> (case keys_of xs of Inl e \<Rightarrow> Inl e | Inr ks \<Rightarrow> Inr (k # ks)))"

text \<open>The key of an element, read once \<open>keys_of\<close> has computed all of them.\<close>

definition sort_key_of :: "json \<Rightarrow> json" where
  "sort_key_of x = (case upload_date_key x of Inl e \<Rightarrow> JNull | Inr k \<Rightarrow> k)"

fun is_str :: "json \<Rightarrow> bool" where
  "is_str (JStr s) = True"
| "is_str _ = False"

fun str_of :: "json \<Rightarrow> string" where
  "str_of (JStr s) = s"
| "str_of _ = []"

fun is_num :: "json \<Rightarrow> bool" where
  "is_num (JInt i) = True"
| "is_num (JBool b) = True"
| "is_num _ = False"

fun num_of :: "json \<Rightarrow> int" where
  "num_of (JInt i) = i"
| "num_of (JBool b) = (if b then 1 else 0)"
| "num_of _ = 0"

text \<open>
  \<open>list.sort(key=..., reverse=True)\<close>. The keys are computed first, for every element. A
  list of at most one element is then left as it is, without a comparison. Python orders
  two strings (by code points, a proper prefix first) and two numbers; comparing any other
  two keys raises \<open>TypeError\<close>, and a sort of two or more elements compares every element
  with some other one, so it succeeds exactly when all keys are strings or all are numbers.
  The sort is stable, and with \<open>reverse=True\<close> it reverses the list, sorts it in
  ascending order and reverses the result, so elements with equal keys keep their order.
\<close>

definition sort_reverse :: "json list \<Rightarrow> error + json list" where
  "sort_reverse all_files =
     (case keys_of all_files of
        Inl e \<Rightarrow> Inl e
      | Inr ks \<Rightarrow>
          if length ks \<le> 1 then Inr all_files
          else if list_all is_str ks
            then Inr (rev (sort_key (\<lambda>x. str_of (sort_key_of x)) (rev all_files)))
          else if list_all is_num ks
            then Inr (rev (sort_key (\<lambda>x. num_of (sort_key_of x)) (rev all_files)))
          else Inl TypeError)"

text \<open>\<open>METADATA_FOLDER\<close> is created when the module is loaded, so it exists.\<close>

definition get_all_files :: "vault \<Rightarrow> error + json list" where
  "get_all_files st = sort_reverse (load_all (metadata st))"

text \<open>A record as \<open>get_all_files\<close> needs it: a dictionary whose \<open>upload_date\<close>, when
  present, is a string; and that string (the default of the key is the empty string).\<close>

definition well_formed :: "json \<Rightarrow> bool" where
  "well_formed x = (case upload_date_key x of Inl e \<Rightarrow> False | Inr k \<Rightarrow> is_str k)"

definition upload_date :: "json \<Rightarrow> string" where
  "upload_date x = str_of (sort_key_of x)"

subsection \<open>Routes\<close>

text \<open>
  The template of \<open>home\<close> evaluates, for every file of the listing and in this order,
  \<open>file.original_filename\<close>, \<open>file.user_email\<close>, \<open>format_size(file.size)\<close>,
  \<open>format_date(file.upload_date)\<close> and \<open>is_image(file.filename) or is_pdf(file.filename)\<close>.
  In Jinja \<open>file.key\<close> is the entry of the dictionary, and the undefined value (here
  \<open>None\<close>) when there is none or \<open>file\<close> is no dictionary. Printing a value never fails,
  and \<open>format_date\<close> catches every exception; the calls of \<open>format_file_size\<close>, \<open>is_image\<close>
  and \<open>is_pdf\<close> can raise, and then the request is answered with status 500.
\<close>

definition attr :: "json \<Rightarrow> string \<Rightarrow> json option" where
  "attr file k = (case file of JDict d \<Rightarrow> map_of d k | _ \<Rightarrow> None)"

text \<open>
  \<open>format_file_size\<close> (lines 102 to 108) compares its argument with \<open>1024.0\<close>, divides it by
  \<open>1024.0\<close> and prints it with \<open>:.1f\<close>. The undefined value raises \<open>UndefinedError\<close> in the
  comparison; null, a string and a dictionary raise \<open>TypeError\<close>; an integer is converted
  to a float by the division or by the printing, which raises \<open>OverflowError\<close> when it
  rounds to \<open>2 ^ 1024\<close> or beyond. The digits printed are floating point and are not
  modelled: the result is the unit chosen.
\<close>

definition float_range :: "int \<Rightarrow> bool" where
  "float_range n = (- (2 ^ 1024 - 2 ^ 970) < n \<and> n < 2 ^ 1024 - 2 ^ 970)"

fun format_file_size :: "json option \<Rightarrow> error + string" where
  "format_file_size None = Inl UndefinedError"
| "format_file_size (Some (JInt n)) =
     (if \<not> float_range n then Inl OverflowError
      else if n < 1024 then Inr ''B''
      else if n < 1024 ^ 2 then Inr ''KB''
      else if n < 1024 ^ 3 then Inr ''MB''
      else if n < 1024 ^ 4 then Inr ''GB''
      else Inr ''TB'')"
| "format_file_size (Some (JBool b)) = Inr ''B''"
| "format_file_size (Some v) = Inl TypeError"

text \<open>
  The test \<open>is_image(file.filename) or is_pdf(file.filename)\<close> of the template. Both
  functions start with \<open>'.' in filename\<close>: false for the undefined value, which iterates
  as the empty sequence; \<open>TypeError\<close> for null, a boolean and an integer; a test of the
  keys for a dictionary, which has no \<open>rsplit\<close> when the test succeeds.
\<close>

fun preview_button :: "json option \<Rightarrow> error + bool" where
  "preview_button None = Inr False"
| "preview_button (Some (JStr filename)) = Inr (is_image filename \<or> is_pdf filename)"
| "preview_button (Some (JDict d)) =
     (if map_of d ''.'' \<noteq> None then Inl AttributeError else Inr False)"
| "preview_button (Some v) = Inl TypeError"

definition render_file :: "json \<Rightarrow> error + bool" where
  "render_file file =
     (case format_file_size (attr file ''size'') of
        Inl e \<Rightarrow> Inl e
      | Inr unit_shown \<Rightarrow> preview_button (attr file ''filename''))"

fun render_files :: "json list \<Rightarrow> error + bool list" where
  "render_files [] = Inr []"
| "render_files (file # files) =
     (case render_file file of
        Inl e \<Rightarrow> Inl e
      | Inr b \<Rightarrow> (case render_files files of Inl e \<Rightarrow> Inl e | Inr bs \<Rightarrow> Inr (b # bs)))"

definition home :: "user option \<Rightarrow> vault \<Rightarrow> response" where
  "home session st =
     (case session of
        None \<Rightarrow> Login_page
      | Some u \<Rightarrow>
          (case get_all_files st of
             Inl e \<Rightarrow> Server_error e
           | Inr files \<Rightarrow>
               (case render_files files of
                  Inl e \<Rightarrow> Server_error e
                | Inr buttons \<Rightarrow> Home_page u files buttons (is_admin u))))"

text \<open>\<open>request.files['file']\<close>: the file name the client claims, and the content.\<close>

record upload =
  up_filename :: string
  up_content :: bytes

record env =
  secure_filename :: "string \<Rightarrow> string"
  now_stamp :: string
  now_iso :: string

text \<open>Lines 533 to 535 of \<open>upload_file\<close>: the name under which the upload is stored.\<close>

definition upload_name :: "string \<Rightarrow> string \<Rightarrow> string \<Rightarrow> string" where
  "upload_name email stamp original_filename =
     split_at_first email @ ''_'' @ stamp @ ''_'' @ original_filename"

text \<open>
  \<open>session["user"]\<close> always has the key \<open>preferred_username\<close> (\<open>auth_callback\<close> writes it,
  as \<open>None\<close> when the token has no such claim), so the default \<open>"user"\<close> of the \<open>get\<close> in
  line 533 is never taken, and \<open>None.split\<close> raises \<open>AttributeError\<close>.
\<close>

definition upload_file :: "env \<Rightarrow> user option \<Rightarrow> upload option \<Rightarrow> vault \<Rightarrow> response \<times> vault" where
  "upload_file ev session file st =
     (case session of
        None \<Rightarrow> (Redirect_home, st)
      | Some u \<Rightarrow>
          if \<not> is_admin u
          then (Body ''Unauthorized: Only administrators can upload files'' 403, st)
          else
            (case file of
               None \<Rightarrow> (Redirect_home, st)
             | Some f \<Rightarrow>
                 if up_filename f = [] then (Redirect_home, st)
                 else if allowed_file (up_filename f) then
                   (let original_filename = secure_filename ev (up_filename f) in
                    case preferred_username u of
                      None \<Rightarrow> (Server_error AttributeError, st)
                    | Some email \<Rightarrow>
                        (let filename = upload_name email (now_stamp ev) original_filename;
                             st1 = st\<lparr>uploads := AList.update filename (up_content f) (uploads st)\<rparr>
                         in case save_file_metadata (now_iso ev) st1 filename
                                   (preferred_username u) original_filename of
                              Inl e \<Rightarrow> (Server_error e, st1)
                            | Inr (m, st2) \<Rightarrow> (Redirect_home, st2)))
                 else (Body ''Invalid file type'' 400, st)))"

text \<open>
  \<open>send_file(filepath, as_attachment, download_name)\<close> for an existing file. When
  \<open>download_name\<close> is \<open>None\<close> the last component of the path is taken, which is the file
  name. The type is \<open>mimetypes.guess_type(download_name)\<close>, and
  \<open>application/octet-stream\<close> when there is no guess; \<open>guess_type\<close> raises \<open>TypeError\<close> for
  a name that is no string. What \<open>guess_type\<close> answers for a string depends on the type
  table of the host and is an input of the model. How the name is written into the
  \<open>Content-Disposition\<close> header is not modelled.
\<close>

definition guessed_mimetype :: "(string \<Rightarrow> string option) \<Rightarrow> string \<Rightarrow> string" where
  "guessed_mimetype guess_type download_name =
     (case guess_type download_name of
        None \<Rightarrow> ''application/octet-stream''
      | Some t \<Rightarrow> t)"

definition send_file ::
  "(string \<Rightarrow> string option) \<Rightarrow> string \<Rightarrow> bytes \<Rightarrow> bool \<Rightarrow> json \<Rightarrow> response" where
  "send_file guess_type filename content as_attachment download_name =
     (case download_name of
        JNull \<Rightarrow> Send_file content as_attachment filename (guessed_mimetype guess_type filename)
      | JStr s \<Rightarrow> Send_file content as_attachment s (guessed_mimetype guess_type s)
      | _ \<Rightarrow> Server_error TypeError)"

definition download_file ::
  "(string \<Rightarrow> string option) \<Rightarrow> user option \<Rightarrow> vault \<Rightarrow> string \<Rightarrow> response" where
  "download_file guess_type session st filename =
     (case session of
        None \<Rightarrow> Redirect_home
      | Some u \<Rightarrow>
          (case get_file_metadata st filename of
             Inl e \<Rightarrow> Server_error e
           | Inr metadata_doc \<Rightarrow>
               if \<not> truthy metadata_doc then Body ''File not found'' 404
               else
                 (case map_of (uploads st) filename of
                    None \<Rightarrow> Body ''File not found'' 404
                  | Some content \<Rightarrow>
                      (case metadata_doc of
                         JDict d \<Rightarrow>
                           send_file guess_type filename content True
                             (case map_of d ''original_filename'' of
                                None \<Rightarrow> JStr filename
                              | Some v \<Rightarrow> v)
                       | _ \<Rightarrow> Server_error AttributeError))))"

definition preview_file ::
  "(string \<Rightarrow> string option) \<Rightarrow> user option \<Rightarrow> vault \<Rightarrow> string \<Rightarrow> response" where
  "preview_file guess_type session st filename =
     (case session of
        None \<Rightarrow> Redirect_home
      | Some u \<Rightarrow>
          (case get_file_metadata st filename of
             Inl e \<Rightarrow> Server_error e
           | Inr metadata_doc \<Rightarrow>
               if \<not> truthy metadata_doc then Body ''File not found'' 404
               else
                 (case map_of (uploads st) filename of
                    None \<Rightarrow> Body ''File not found'' 404
                  | Some content \<Rightarrow> send_file guess_type filename content False JNull)))"

definition delete_file :: "user option \<Rightarrow> vault \<Rightarrow> string \<Rightarrow> response \<times> vault" where
  "delete_file session st filename =
     (case session of
        None \<Rightarrow> (Jsonify False (Some ''Not authenticated'') 401, st)
      | Some u \<Rightarrow>
          if \<not> is_admin u
          then (Jsonify False (Some ''Unauthorized: Only administrators can delete files'') 403, st)
          else
            (case get_file_metadata st filename of
               Inl e \<Rightarrow> (Server_error e, st)
             | Inr metadata_doc \<Rightarrow>
                 if \<not> truthy metadata_doc
                 then (Jsonify False (Some ''File not found'') 404, st)
                 else
                   (let st1 = (if map_of (uploads st) filename \<noteq> None
                               then st\<lparr>uploads := AList.delete filename (uploads st)\<rparr>
                               else st);
                        st2 = (if map_of (metadata st1) (filename @ ''.json'') \<noteq> None
                               then st1\<lparr>metadata :=
                                      AList.delete (filename @ ''.json'') (metadata st1)\<rparr>
                               else st1)
                    in (Jsonify True None 200, st2))))"

text \<open>
  \<open>auth_callback\<close>: \<open>code\<close>, \<open>error\<close> and \<open>error_description\<close> are the arguments of the
  request, \<open>result\<close> is what the token exchange of the identity provider returned.
\<close>

datatype token_result = Token_error "string option" | Token_claims claims

definition py_str :: "string option \<Rightarrow> string" where
  "py_str x = (case x of None \<Rightarrow> ''None'' | Some s \<Rightarrow> s)"

definition auth_callback ::
  "string option \<Rightarrow> string option \<Rightarrow> string option \<Rightarrow> token_result \<Rightarrow> user option
     \<Rightarrow> response \<times> user option" where
  "auth_callback code err error_desc result session =
     (if code = None \<or> code = Some []
      then (Body (''Auth error: '' @ py_str err @ '' - '' @ py_str error_desc) 400, session)
      else
        (case result of
           Token_error d \<Rightarrow> (Body (''Login failed: '' @ py_str d) 400, session)
         | Token_claims cl \<Rightarrow> (Redirect_home, Some (callback_user cl))))"

subsection \<open>Concrete runs\<close>

text \<open>
  A model of werkzeug's \<open>secure_filename\<close> for ASCII names on a POSIX host, used in the
  concrete runs below (the theorems hold for every sanitizer): each \<open>/\<close> becomes a blank,
  the words between white space are joined with \<open>_\<close>, every character outside
  \<open>A-Za-z0-9_.-\<close> is dropped, and dots and underscores are stripped from both ends.
\<close>

definition is_space :: "char \<Rightarrow> bool" where
  "is_space c =
     (c \<in> set [CHR '' '', CHR 0x09, CHR 0x0A, CHR 0x0B, CHR 0x0C, CHR 0x0D,
                CHR 0x1C, CHR 0x1D, CHR 0x1E, CHR 0x1F])"

fun split_ws :: "string \<Rightarrow> string \<Rightarrow> string list" where
  "split_ws cur [] = (if cur = [] then [] else [rev cur])"
| "split_ws cur (c # cs) =
     (if is_space c then (if cur = [] then split_ws [] cs else rev cur # split_ws [] cs)
      else split_ws (c # cur) cs)"

fun join_underscore :: "string list \<Rightarrow> string" where
  "join_underscore [] = []"
| "join_underscore [w] = w"
| "join_underscore (w # ws) = w @ ''_'' @ join_underscore ws"

definition strip_chars :: "string \<Rightarrow> string \<Rightarrow> string" where
  "strip_chars cs s =
     rev (dropWhile (\<lambda>c. c \<in> set cs) (rev (dropWhile (\<lambda>c. c \<in> set cs) s)))"

definition secure_filename_ascii :: "string \<Rightarrow> string" where
  "secure_filename_ascii filename =
     (let spaced = map (\<lambda>c. if c = CHR ''/'' then CHR '' '' else c) filename;
          joined = join_underscore (split_ws [] spaced);
          kept = filter (\<lambda>c. c \<in> set
                   ''ABCDEFGHIJKLMNOPQRSTUVWXYZabcdefghijklmnopqrstuvwxyz0123456789_.-'') joined
      in strip_chars ''._'' kept)"

text \<open>
  A type table for the concrete runs: the guess is looked up by the lowered extension of
  the name, and the entries are those that Python's built-in table has for these
  extensions. The entries of other extensions differ between hosts and are left out.
\<close>

definition ex_guess_type :: "string \<Rightarrow> string option" where
  "ex_guess_type download_name =
     (if CHR ''.'' \<in> set download_name
      then map_of [(''png'', ''image/png''), (''jpg'', ''image/jpeg''), (''jpeg'', ''image/jpeg''),
                   (''pdf'', ''application/pdf''), (''txt'', ''text/plain''),
                   (''doc'', ''application/msword'')]
             (lower (rsplit_ext download_name))
      else None)"

definition ex_env :: env where
  "ex_env = \<lparr>secure_filename = secure_filename_ascii, now_stamp = ''20240101_120000'',
             now_iso = ''2024-01-01T12:00:00.000001''\<rparr>"

definition ex_env_later :: env where
  "ex_env_later = \<lparr>secure_filename = secure_filename_ascii, now_stamp = ''20240101_120001'',
                   now_iso = ''2024-01-01T12:00:01.000001''\<rparr>"

definition ex_report :: upload where
  "ex_report = \<lparr>up_filename = ''report.pdf'', up_content = [1, 2, 3]\<rparr>"

definition ex_report_again :: upload where
  "ex_report_again = \<lparr>up_filename = ''report.pdf'', up_content = [7]\<rparr>"

definition ex_admin :: user where
  "ex_admin = \<lparr>name = Some ''Alice'', preferred_username = Some ''alice@example.com'',
               oid = Some ''oid-1'', roles = [''Game.Lead.Admin'']\<rparr>"

definition ex_viewer :: user where
  "ex_viewer = \<lparr>name = Some ''Bob'', preferred_username = Some ''bob@example.com'',
                oid = Some ''oid-2'', roles = [''Game.Tester.Player'']\<rparr>"



definition ex_shilpa_claims :: claims where
  "ex_shilpa_claims =
     \<lparr>c_name = Some ''Shilpa'', c_preferred_username = Some ''Shilpa.Sureshkumar@outlook.com'',
      c_oid = Some ''oid-5'', c_roles = Some [''Game.Tester.Player'']\<rparr>"

definition ex_bob_claims :: claims where
  "ex_bob_claims = \<lparr>c_name = Some ''Bob'', c_preferred_username = Some ''bob@example.com'',
                    c_oid = Some ''oid-2'', c_roles = Some [''Game.Tester.Player'']\<rparr>"

definition ex_record :: "string \<Rightarrow> string \<Rightarrow> string \<Rightarrow> int \<Rightarrow> json" where
  "ex_record filename original_filename date n =
     JDict [(''filename'', JStr filename), (''original_filename'', JStr original_filename),
            (''user_email'', JStr ''alice@example.com''), (''upload_date'', JStr date),
            (''size'', JInt n)]"

definition empty_vault :: vault where
  "empty_vault = \<lparr>uploads = [], metadata = []\<rparr>"

text \<open>A vault with one stored document of each of two kinds.\<close>

definition ex_vault :: vault where
  "ex_vault =
     \<lparr>uploads = [(''alice_20240101_120000_notes.docx'', [1, 2, 3]),
                 (''alice_20240102_090000_scan.png'', [9, 8])],
      metadata =
        [(''alice_20240101_120000_notes.docx.json'',
            Parsed (ex_record ''alice_20240101_120000_notes.docx'' ''notes.docx''
                      ''2024-01-01T12:00:00.000001'' 3)),
         (''alice_20240102_090000_scan.png.json'',
            Parsed (ex_record ''alice_20240102_090000_scan.png'' ''scan.png''
                      ''2024-01-02T09:00:00.000001'' 2))]\<rparr>"

text \<open>A vault with one stored PDF document.\<close>

definition ex_pdf_vault :: vault where
  "ex_pdf_vault =
     \<lparr>uploads = [(''alice_20240104_080000_plan.pdf'', [4, 5])],
      metadata =
        [(''alice_20240104_080000_plan.pdf.json'',
            Parsed (ex_record ''alice_20240104_080000_plan.pdf'' ''plan.pdf''
                      ''2024-01-04T08:00:00.000001'' 2))]\<rparr>"

text \<open>A vault whose only metadata record has lost its file.\<close>

definition ex_orphan_vault :: vault where
  "ex_orphan_vault =
     \<lparr>uploads = [],
      metadata =
        [(''alice_20240101_120000_notes.docx.json'',
            Parsed (ex_record ''alice_20240101_120000_notes.docx'' ''notes.docx''
                      ''2024-01-01T12:00:00.000001'' 3))]\<rparr>"

text \<open>The vault \<open>ex_vault\<close> with one damaged metadata file more.\<close>

definition ex_damaged_vault :: vault where
  "ex_damaged_vault =
     ex_vault\<lparr>metadata := (''alice_20240103_100000_cut.pdf.json'', Damaged) # metadata ex_vault\<rparr>"

text \<open>Two records of the same instant, enumerated with the greater name first.\<close>

definition ex_tie_vault :: vault where
  "ex_tie_vault =
     \<lparr>uploads = [(''bob_20240101_120000_b.txt'', [2]), (''alice_20240101_120000_a.txt'', [1])],
      metadata =
        [(''bob_20240101_120000_b.txt.json'',
            Parsed (ex_record ''bob_20240101_120000_b.txt'' ''b.txt'' ''2024-01-01T12:00:00'' 1)),
         (''alice_20240101_120000_a.txt.json'',
            Parsed (ex_record ''alice_20240101_120000_a.txt'' ''a.txt'' ''2024-01-01T12:00:00'' 1))]\<rparr>"

section \<open>Auxiliary facts\<close>

lemma allowed_file_nonempty: "allowed_file filename \<Longrightarrow> filename \<noteq> []"
  by (auto simp add: allowed_file_def)

text \<open>What a successful upload writes.\<close>

lemma upload_file_admin:
  assumes "is_admin u" and "preferred_username u = Some email" and "allowed_file (up_filename f)"
  shows "upload_file ev (Some u) (Some f) st =
     (let original_filename = secure_filename ev (up_filename f);
          filename = upload_name email (now_stamp ev) original_filename
      in (Redirect_home,
          \<lparr>uploads = AList.update filename (up_content f) (uploads st),
           metadata = AList.update (filename @ ''.json'')
             (Parsed (JDict
                 [(''filename'', JStr filename),
                  (''original_filename'', JStr original_filename),
                  (''user_email'', JStr email),
                  (''upload_date'', JStr (now_iso ev)),
                  (''size'', JInt (int (length (up_content f))))]))
             (metadata st)\<rparr>))"
  using assms allowed_file_nonempty [OF assms(3)]
  by (simp add: upload_file_def save_file_metadata_def Let_def update_conv')

lemma upload_name_stamp_inj:
  assumes "length s1 = length s2"
    and "upload_name email s1 n1 = upload_name email s2 n2"
  shows "s1 = s2"
  using assms by (simp add: upload_name_def)

lemma keys_of_well_formed:
  "list_all well_formed xs \<Longrightarrow>
     keys_of xs = Inr (map sort_key_of xs) \<and> list_all is_str (map sort_key_of xs)"
  by (induction xs) (auto simp add: well_formed_def sort_key_of_def split: sum.splits)

text \<open>On well-formed records the sort neither raises nor depends on the number of
  elements: it is the stable descending sort by \<open>upload_date\<close>.\<close>

lemma sort_reverse_well_formed:
  assumes "list_all well_formed xs"
  shows "sort_reverse xs = Inr (rev (sort_key upload_date (rev xs)))"
proof (cases "length xs \<le> 1")
  case True
  then have "xs = [] \<or> (\<exists>x. xs = [x])"
    by (cases xs) auto
  then show ?thesis
    using keys_of_well_formed [OF assms] by (auto simp add: sort_reverse_def)
next
  case False
  have "upload_date = (\<lambda>x. str_of (sort_key_of x))"
    by (rule ext) (simp add: upload_date_def)
  with False show ?thesis
    using keys_of_well_formed [OF assms] by (simp add: sort_reverse_def)
qed

lemma sort_reverse_mset: "sort_reverse xs = Inr ys \<Longrightarrow> mset ys = mset xs"
  by (auto simp add: sort_reverse_def split: sum.splits if_splits)

lemma load_all_member:
  "(n, Parsed j) \<in> set m \<Longrightarrow> endswith n ''.json'' \<Longrightarrow> j \<in> set (load_all m)"
  by (induction m rule: load_all.induct) (auto split: meta_file.splits)

lemma load_all_skip_damaged: "load_all (filter (\<lambda>e. snd e \<noteq> Damaged) m) = load_all m"
  by (induction m rule: load_all.induct) (auto split: meta_file.splits)

lemma length_load_all:
  "length (load_all m) =
     length (filter (\<lambda>e. endswith (fst e) ''.json'' \<and> snd e \<noteq> Damaged) m)"
  by (induction m rule: load_all.induct) (auto split: meta_file.splits)

text \<open>Facts about the concrete runs.\<close>

lemma ex_admin_is_admin: "is_admin ex_admin"
  by (simp add: is_admin_def get_user_roles_def ADMIN_ROLE_def ex_admin_def)

lemma ex_admin_email: "preferred_username ex_admin = Some ''alice@example.com''"
  by (simp add: ex_admin_def)

lemma ex_report_allowed: "allowed_file (up_filename ex_report)"
  by (simp add: allowed_file_def rsplit_ext_def lower_def lower_char_def ALLOWED_EXTENSIONS_def
      ex_report_def)

lemma ex_report_again_allowed: "allowed_file (up_filename ex_report_again)"
  by (simp add: allowed_file_def rsplit_ext_def lower_def lower_char_def ALLOWED_EXTENSIONS_def
      ex_report_again_def)

lemma ex_report_secure: "secure_filename ex_env (up_filename ex_report) = ''report.pdf''"
  by (simp add: ex_env_def ex_report_def secure_filename_ascii_def strip_chars_def is_space_def)

lemma ex_report_again_secure:
  "secure_filename ex_env (up_filename ex_report_again) = ''report.pdf''"
  by (simp add: ex_env_def ex_report_again_def secure_filename_ascii_def strip_chars_def
      is_space_def)

lemma ex_upload_name:
  "upload_name ''alice@example.com'' (now_stamp ex_env) ''report.pdf'' =
     ''alice_20240101_120000_report.pdf''"
  by (simp add: upload_name_def split_at_first_def ex_env_def)

lemma ex_upload_name_later:
  "upload_name ''alice@example.com'' (now_stamp ex_env_later) ''report.pdf'' =
     ''alice_20240101_120001_report.pdf''"
  by (simp add: upload_name_def split_at_first_def ex_env_later_def)

lemma ex_report_pdf_type: "guessed_mimetype ex_guess_type ''report.pdf'' = ''application/pdf''"
  by (simp add: guessed_mimetype_def ex_guess_type_def rsplit_ext_def lower_def lower_char_def)

section \<open>The claims\<close>

subsection \<open>C1: a principal without a recognized role\<close>




subsection \<open>C2: roles and the email\<close>

text \<open>
  C2 says that the roles depend on the role claims only, never on the email. Two tokens
  with the same role claim, the viewer role, get different roles: the one whose email is
  \<open>Shilpa.Sureshkumar@outlook.com\<close> is made an administrator.
\<close>

theorem email_override_counterexample:
  "c_roles ex_shilpa_claims = c_roles ex_bob_claims
   \<and> c_preferred_username ex_shilpa_claims \<noteq> c_preferred_username ex_bob_claims
   \<and> roles (callback_user ex_shilpa_claims) = [''Game.Lead.Admin'']
   \<and> roles (callback_user ex_bob_claims) = [''Game.Tester.Player'']
   \<and> is_admin (callback_user ex_shilpa_claims)
   \<and> \<not> is_admin (callback_user ex_bob_claims)"
  by (simp add: callback_user_def callback_roles_def forced_admin_def lower_def lower_char_def
      is_admin_def get_user_roles_def ADMIN_ROLE_def ex_shilpa_claims_def ex_bob_claims_def)

text \<open>
  C2, as the code has it: two principals with the same role claims, neither of whose
  lowered emails contains \<open>shilpa.sureshkumar@outlook.com\<close>, are given the same roles and
  pass the same admin and viewer tests; a principal whose lowered email contains that
  literal is given exactly the admin role, whatever its role claims.
\<close>

theorem roles_from_claims_unless_forced:
  assumes "c_roles a = c_roles b" and "\<not> forced_admin a" and "\<not> forced_admin b"
    and "forced_admin c"
  shows "roles (callback_user a) = roles (callback_user b)
       \<and> is_admin (callback_user a) = is_admin (callback_user b)
       \<and> is_viewer (callback_user a) = is_viewer (callback_user b)
       \<and> roles (callback_user c) = [ADMIN_ROLE]"
  using assms
  by (simp add: callback_user_def callback_roles_def is_admin_def is_viewer_def
      get_user_roles_def ADMIN_ROLE_def)

theorem roles_from_claims_unless_forced_witness:
  "c_roles ex_bob_claims =
     c_roles (ex_bob_claims\<lparr>c_preferred_username := Some ''carol@example.com''\<rparr>)
   \<and> \<not> forced_admin ex_bob_claims
   \<and> \<not> forced_admin (ex_bob_claims\<lparr>c_preferred_username := Some ''carol@example.com''\<rparr>)
   \<and> forced_admin ex_shilpa_claims
   \<and> roles (callback_user ex_bob_claims) =
       roles (callback_user (ex_bob_claims\<lparr>c_preferred_username := Some ''carol@example.com''\<rparr>))
   \<and> roles (callback_user ex_shilpa_claims) = [ADMIN_ROLE]"
proof -
  let ?b = "ex_bob_claims\<lparr>c_preferred_username := Some ''carol@example.com''\<rparr>"
  have h1: "c_roles ex_bob_claims = c_roles ?b"
    by simp
  have h2: "\<not> forced_admin ex_bob_claims"
    by (simp add: forced_admin_def lower_def lower_char_def ex_bob_claims_def)
  have h3: "\<not> forced_admin ?b"
    by (simp add: forced_admin_def lower_def lower_char_def ex_bob_claims_def)
  have h4: "forced_admin ex_shilpa_claims"
    by (simp add: forced_admin_def lower_def lower_char_def ex_shilpa_claims_def)
  show ?thesis
    using h2 h3 h4 roles_from_claims_unless_forced [OF h1 h2 h3 h4] by simp
qed

subsection \<open>C3: upload and delete without the admin role\<close>

text \<open>
  C3: for a logged-in principal without the admin role, every upload and every delete is
  answered with status 403, and the vault returned is the vault given: neither the
  uploads nor the metadata change.
\<close>

theorem non_admin_upload_delete_denied:
  assumes "\<not> is_admin u"
  shows "upload_file ev (Some u) file st =
           (Body ''Unauthorized: Only administrators can upload files'' 403, st)
       \<and> delete_file (Some u) st filename =
           (Jsonify False (Some ''Unauthorized: Only administrators can delete files'') 403, st)"
  using assms by (simp add: upload_file_def delete_file_def)

theorem non_admin_upload_delete_denied_witness:
  "\<not> is_admin ex_viewer
   \<and> upload_file ex_env (Some ex_viewer) (Some ex_report) ex_vault =
       (Body ''Unauthorized: Only administrators can upload files'' 403, ex_vault)
   \<and> delete_file (Some ex_viewer) ex_vault ''alice_20240101_120000_notes.docx'' =
       (Jsonify False (Some ''Unauthorized: Only administrators can delete files'') 403, ex_vault)"
proof -
  have h: "\<not> is_admin ex_viewer"
    by (simp add: is_admin_def get_user_roles_def ADMIN_ROLE_def ex_viewer_def)
  show ?thesis
    using h non_admin_upload_delete_denied [OF h] by simp
qed

subsection \<open>C4: the name of an upload\<close>

text \<open>
  C4 says that key generation retries until the key is free, so that two uploads of the
  same principal with the same file name in the same tick of the clock get two keys and
  two records. \<open>upload_file\<close> computes the name once and never looks whether it is taken:
  the second of two such uploads is stored under the name of the first and replaces it.
  After both, the vault holds one file and one record, and the file has the second content.
\<close>

theorem same_tick_same_key_counterexample:
  "fst (upload_file ex_env (Some ex_admin) (Some ex_report) empty_vault) = Redirect_home
   \<and> fst (upload_file ex_env (Some ex_admin) (Some ex_report_again)
            (snd (upload_file ex_env (Some ex_admin) (Some ex_report) empty_vault))) = Redirect_home
   \<and> map fst (uploads (snd (upload_file ex_env (Some ex_admin) (Some ex_report_again)
            (snd (upload_file ex_env (Some ex_admin) (Some ex_report) empty_vault))))) =
       [''alice_20240101_120000_report.pdf'']
   \<and> map fst (metadata (snd (upload_file ex_env (Some ex_admin) (Some ex_report_again)
            (snd (upload_file ex_env (Some ex_admin) (Some ex_report) empty_vault))))) =
       [''alice_20240101_120000_report.pdf.json'']
   \<and> download_file ex_guess_type (Some ex_admin)
         (snd (upload_file ex_env (Some ex_admin) (Some ex_report_again)
            (snd (upload_file ex_env (Some ex_admin) (Some ex_report) empty_vault))))
         ''alice_20240101_120000_report.pdf'' =
       Send_file [7] True ''report.pdf'' ''application/pdf''"
proof -
  have u1: "upload_file ex_env (Some ex_admin) (Some ex_report) empty_vault =
      (Redirect_home,
       \<lparr>uploads = [(''alice_20240101_120000_report.pdf'', [1, 2, 3])],
        metadata = [(''alice_20240101_120000_report.pdf.json'',
          Parsed (JDict
            [(''filename'', JStr ''alice_20240101_120000_report.pdf''),
             (''original_filename'', JStr ''report.pdf''),
             (''user_email'', JStr ''alice@example.com''),
             (''upload_date'', JStr ''2024-01-01T12:00:00.000001''),
             (''size'', JInt 3)]))]\<rparr>)"
    using upload_file_admin [OF ex_admin_is_admin ex_admin_email ex_report_allowed,
        of ex_env empty_vault]
    by (simp add: ex_report_secure ex_upload_name Let_def)
      (simp add: ex_report_def ex_env_def empty_vault_def)
  have u2: "upload_file ex_env (Some ex_admin) (Some ex_report_again)
       \<lparr>uploads = [(''alice_20240101_120000_report.pdf'', [1, 2, 3])],
        metadata = [(''alice_20240101_120000_report.pdf.json'',
          Parsed (JDict
            [(''filename'', JStr ''alice_20240101_120000_report.pdf''),
             (''original_filename'', JStr ''report.pdf''),
             (''user_email'', JStr ''alice@example.com''),
             (''upload_date'', JStr ''2024-01-01T12:00:00.000001''),
             (''size'', JInt 3)]))]\<rparr> =
      (Redirect_home,
       \<lparr>uploads = [(''alice_20240101_120000_report.pdf'', [7])],
        metadata = [(''alice_20240101_120000_report.pdf.json'',
          Parsed (JDict
            [(''filename'', JStr ''alice_20240101_120000_report.pdf''),
             (''original_filename'', JStr ''report.pdf''),
             (''user_email'', JStr ''alice@example.com''),
             (''upload_date'', JStr ''2024-01-01T12:00:00.000001''),
             (''size'', JInt 1)]))]\<rparr>)"
    by (simp add: upload_file_admin [OF ex_admin_is_admin ex_admin_email ex_report_again_allowed]
        ex_report_again_secure ex_upload_name Let_def)
      (simp add: ex_report_again_def ex_env_def)
  show ?thesis
    by (simp add: u1 u2 download_file_def get_file_metadata_def send_file_def
        guessed_mimetype_def ex_guess_type_def rsplit_ext_def lower_def lower_char_def)
qed

text \<open>
  C4, as the code has it: the name of an upload is the part of the email before the first
  \<open>@\<close>, the reading of the clock to the second and the sanitized file name, joined by
  underscores, with no test whether the name is taken and no retry. Two uploads of the
  same admin with the same file name whose clock readings differ (and have the same
  length, as two readings in the format \<open>%Y%m%d_%H%M%S\<close> have) get two different names,
  and after both each name downloads its own content.
\<close>

theorem distinct_stamps_distinct_keys:
  assumes "is_admin u" and "preferred_username u = Some email"
    and "allowed_file (up_filename f1)" and "up_filename f2 = up_filename f1"
    and "secure_filename ev2 = secure_filename ev1"
    and "now_stamp ev1 \<noteq> now_stamp ev2"
    and "length (now_stamp ev1) = length (now_stamp ev2)"
  shows "upload_name email (now_stamp ev1) (secure_filename ev1 (up_filename f1)) \<noteq>
         upload_name email (now_stamp ev2) (secure_filename ev2 (up_filename f2))
       \<and> download_file gt (Some v)
           (snd (upload_file ev2 (Some u) (Some f2) (snd (upload_file ev1 (Some u) (Some f1) st))))
           (upload_name email (now_stamp ev1) (secure_filename ev1 (up_filename f1))) =
         Send_file (up_content f1) True (secure_filename ev1 (up_filename f1))
           (guessed_mimetype gt (secure_filename ev1 (up_filename f1)))
       \<and> download_file gt (Some v)
           (snd (upload_file ev2 (Some u) (Some f2) (snd (upload_file ev1 (Some u) (Some f1) st))))
           (upload_name email (now_stamp ev2) (secure_filename ev2 (up_filename f2))) =
         Send_file (up_content f2) True (secure_filename ev2 (up_filename f2))
           (guessed_mimetype gt (secure_filename ev2 (up_filename f2)))"
proof -
  let ?n = "secure_filename ev1 (up_filename f1)"
  let ?k1 = "upload_name email (now_stamp ev1) ?n"
  let ?k2 = "upload_name email (now_stamp ev2) ?n"
  have al2: "allowed_file (up_filename f2)"
    using assms(3,4) by simp
  have n2: "secure_filename ev2 (up_filename f2) = ?n"
    using assms(4,5) by simp
  have ne: "?k1 \<noteq> ?k2"
    using upload_name_stamp_inj [OF assms(7)] assms(6) by blast
  have ne': "?k2 \<noteq> ?k1"
    using ne by simp
  show ?thesis
    using ne ne'
    by (simp add: upload_file_admin [OF assms(1,2,3)] upload_file_admin [OF assms(1,2) al2]
        n2 Let_def download_file_def get_file_metadata_def send_file_def update_conv')
qed

theorem distinct_stamps_distinct_keys_witness:
  "is_admin ex_admin \<and> preferred_username ex_admin = Some ''alice@example.com''
   \<and> allowed_file (up_filename ex_report) \<and> up_filename ex_report_again = up_filename ex_report
   \<and> secure_filename ex_env_later = secure_filename ex_env
   \<and> now_stamp ex_env \<noteq> now_stamp ex_env_later
   \<and> length (now_stamp ex_env) = length (now_stamp ex_env_later)
   \<and> download_file ex_guess_type (Some ex_viewer)
        (snd (upload_file ex_env_later (Some ex_admin) (Some ex_report_again)
           (snd (upload_file ex_env (Some ex_admin) (Some ex_report) empty_vault))))
        ''alice_20240101_120000_report.pdf'' =
       Send_file [1, 2, 3] True ''report.pdf'' ''application/pdf''
   \<and> download_file ex_guess_type (Some ex_viewer)
        (snd (upload_file ex_env_later (Some ex_admin) (Some ex_report_again)
           (snd (upload_file ex_env (Some ex_admin) (Some ex_report) empty_vault))))
        ''alice_20240101_120001_report.pdf'' =
       Send_file [7] True ''report.pdf'' ''application/pdf''"
proof -
  have d: "up_filename ex_report_again = up_filename ex_report"
    by (simp add: ex_report_def ex_report_again_def)
  have e: "secure_filename ex_env_later = secure_filename ex_env"
    by (simp add: ex_env_def ex_env_later_def)
  have f: "now_stamp ex_env \<noteq> now_stamp ex_env_later"
    by (simp add: ex_env_def ex_env_later_def)
  have g: "length (now_stamp ex_env) = length (now_stamp ex_env_later)"
    by (simp add: ex_env_def ex_env_later_def)
  have n1: "up_content ex_report = [1, 2, 3]"
    by (simp add: ex_report_def)
  have n2: "up_content ex_report_again = [7]"
    by (simp add: ex_report_again_def)
  show ?thesis
    using ex_admin_is_admin ex_admin_email ex_report_allowed d e f g
      distinct_stamps_distinct_keys [OF ex_admin_is_admin ex_admin_email ex_report_allowed
        d e f g, where gt = ex_guess_type and v = ex_viewer and st = empty_vault]
    by (simp add: ex_report_secure ex_upload_name ex_upload_name_later n1 n2 ex_report_pdf_type)
qed

subsection \<open>C5: preview\<close>

text \<open>
  C5 says that the preview of a stored document whose extension is neither an image
  extension nor \<open>pdf\<close> is refused. \<open>preview_file\<close> never looks at the extension: the
  stored \<open>.docx\<close> document, which is neither image nor PDF, is sent as any other, with
  the content type that the host guesses from its name.
\<close>

theorem preview_docx_counterexample:
  "\<not> is_image ''alice_20240101_120000_notes.docx''
   \<and> \<not> is_pdf ''alice_20240101_120000_notes.docx''
   \<and> preview_file ex_guess_type (Some ex_viewer) ex_vault ''alice_20240101_120000_notes.docx'' =
       Send_file [1, 2, 3] False ''alice_20240101_120000_notes.docx''
         (guessed_mimetype ex_guess_type ''alice_20240101_120000_notes.docx'')"
  by (simp add: is_image_def is_pdf_def rsplit_ext_def lower_def lower_char_def preview_file_def
      get_file_metadata_def send_file_def ex_vault_def ex_record_def)

text \<open>
  C5, as the code has it: for every logged-in principal and every name whose metadata
  file holds a document that Python takes as true and whose file is in the upload folder,
  whatever the extension, \<open>preview_file\<close> sends the content of the file for display in
  the page (not as an attachment), under its stored name and with the content type that
  \<open>send_file\<close> guesses from that name: the type of the host's table, as \<open>image/png\<close> for a
  \<open>.png\<close> name and \<open>application/pdf\<close> for a \<open>.pdf\<close> name, and \<open>application/octet-stream\<close>
  when the table has none. The previewable extensions decide one thing only: the row
  that \<open>home\<close> renders for a record with a file name and a size has a preview button
  exactly when \<open>is_image\<close> or \<open>is_pdf\<close> holds of the file name.
\<close>

theorem preview_ignores_extension:
  assumes "map_of (metadata st) (filename @ ''.json'') = Some (Parsed m)" and "truthy m"
    and "map_of (uploads st) filename = Some content"
    and "attr file ''filename'' = Some (JStr shown)"
    and "format_file_size (attr file ''size'') = Inr unit_shown"
  shows "preview_file gt (Some u) st filename =
           Send_file content False filename (guessed_mimetype gt filename)
       \<and> render_file file = Inr (is_image shown \<or> is_pdf shown)"
  using assms
  by (simp add: preview_file_def get_file_metadata_def send_file_def render_file_def)

theorem preview_ignores_extension_witness:
  "map_of (metadata ex_vault) (''alice_20240102_090000_scan.png'' @ ''.json'') =
     Some (Parsed (ex_record ''alice_20240102_090000_scan.png'' ''scan.png''
                      ''2024-01-02T09:00:00.000001'' 2))
   \<and> truthy (ex_record ''alice_20240102_090000_scan.png'' ''scan.png''
                      ''2024-01-02T09:00:00.000001'' 2)
   \<and> map_of (uploads ex_vault) ''alice_20240102_090000_scan.png'' = Some [9, 8]
   \<and> attr (ex_record ''alice_20240102_090000_scan.png'' ''scan.png''
              ''2024-01-02T09:00:00.000001'' 2) ''filename'' =
       Some (JStr ''alice_20240102_090000_scan.png'')
   \<and> format_file_size (attr (ex_record ''alice_20240102_090000_scan.png'' ''scan.png''
              ''2024-01-02T09:00:00.000001'' 2) ''size'') = Inr ''B''
   \<and> preview_file ex_guess_type (Some ex_viewer) ex_vault ''alice_20240102_090000_scan.png'' =
       Send_file [9, 8] False ''alice_20240102_090000_scan.png'' ''image/png''
   \<and> render_file (ex_record ''alice_20240102_090000_scan.png'' ''scan.png''
              ''2024-01-02T09:00:00.000001'' 2) = Inr True
   \<and> preview_file ex_guess_type (Some ex_viewer) ex_pdf_vault ''alice_20240104_080000_plan.pdf'' =
       Send_file [4, 5] False ''alice_20240104_080000_plan.pdf'' ''application/pdf''
   \<and> render_file (ex_record ''alice_20240104_080000_plan.pdf'' ''plan.pdf''
              ''2024-01-04T08:00:00.000001'' 2) = Inr True"
proof -
  let ?png = "''alice_20240102_090000_scan.png''"
  let ?r = "ex_record ?png ''scan.png'' ''2024-01-02T09:00:00.000001'' 2"
  let ?pdf = "''alice_20240104_080000_plan.pdf''"
  let ?q = "ex_record ?pdf ''plan.pdf'' ''2024-01-04T08:00:00.000001'' 2"
  have a: "map_of (metadata ex_vault) (?png @ ''.json'') = Some (Parsed ?r)"
    by (simp add: ex_vault_def)
  have b: "truthy ?r"
    by (simp add: ex_record_def)
  have c: "map_of (uploads ex_vault) ?png = Some [9, 8]"
    by (simp add: ex_vault_def)
  have d: "attr ?r ''filename'' = Some (JStr ?png)"
    by (simp add: attr_def ex_record_def)
  have e: "format_file_size (attr ?r ''size'') = Inr ''B''"
    by (simp add: attr_def ex_record_def float_range_def)
  have a': "map_of (metadata ex_pdf_vault) (?pdf @ ''.json'') = Some (Parsed ?q)"
    by (simp add: ex_pdf_vault_def)
  have b': "truthy ?q"
    by (simp add: ex_record_def)
  have c': "map_of (uploads ex_pdf_vault) ?pdf = Some [4, 5]"
    by (simp add: ex_pdf_vault_def)
  have d': "attr ?q ''filename'' = Some (JStr ?pdf)"
    by (simp add: attr_def ex_record_def)
  have e': "format_file_size (attr ?q ''size'') = Inr ''B''"
    by (simp add: attr_def ex_record_def float_range_def)
  have t: "guessed_mimetype ex_guess_type ?png = ''image/png''"
    by (simp add: guessed_mimetype_def ex_guess_type_def rsplit_ext_def lower_def lower_char_def)
  have t': "guessed_mimetype ex_guess_type ?pdf = ''application/pdf''"
    by (simp add: guessed_mimetype_def ex_guess_type_def rsplit_ext_def lower_def lower_char_def)
  have i: "is_image ?png"
    by (simp add: is_image_def rsplit_ext_def lower_def lower_char_def)
  have i': "is_pdf ?pdf"
    by (simp add: is_pdf_def rsplit_ext_def lower_def lower_char_def)
  show ?thesis
    using a b c d e
      preview_ignores_extension [OF a b c d e, where gt = ex_guess_type and u = ex_viewer]
      preview_ignores_extension [OF a' b' c' d' e', where gt = ex_guess_type and u = ex_viewer]
    by (simp add: t t' i i')
qed

subsection \<open>C6: records whose file is gone\<close>

text \<open>
  C6 says that the listing leaves out a record whose file is absent. \<open>get_all_files\<close>
  reads the metadata folder only: in a vault whose single record has no file, \<open>home\<close>
  lists that record.
\<close>

theorem orphan_listed_counterexample:
  "map_of (uploads ex_orphan_vault) ''alice_20240101_120000_notes.docx'' = None
   \<and> home (Some ex_viewer) ex_orphan_vault =
       Home_page ex_viewer
         [ex_record ''alice_20240101_120000_notes.docx'' ''notes.docx''
            ''2024-01-01T12:00:00.000001'' 3] [False] False"
  by (simp add: home_def get_all_files_def sort_reverse_def ex_orphan_vault_def ex_record_def
      endswith_def is_admin_def get_user_roles_def ADMIN_ROLE_def ex_viewer_def
      render_file_def attr_def float_range_def is_image_def is_pdf_def rsplit_ext_def
      lower_def lower_char_def)

text \<open>
  C6, as the code has it: when the listing succeeds, it holds the document of every
  metadata file whose name ends in \<open>.json\<close> and that parses, whether its file exists or
  not; the upload folder has no influence on the listing.
\<close>

theorem listing_ignores_blobs:
  assumes "(n, Parsed j) \<in> set (metadata st)" and "endswith n ''.json''"
    and "get_all_files st = Inr files"
  shows "j \<in> set files \<and> get_all_files (st\<lparr>uploads := ups\<rparr>) = Inr files"
proof -
  have "mset files = mset (load_all (metadata st))"
    using assms(3) by (simp add: get_all_files_def sort_reverse_mset)
  then have "set files = set (load_all (metadata st))"
    by (rule mset_eq_setD)
  then show ?thesis
    using load_all_member [OF assms(1,2)] assms(3) by (simp add: get_all_files_def)
qed

theorem listing_ignores_blobs_witness:
  "(''alice_20240101_120000_notes.docx.json'',
     Parsed (ex_record ''alice_20240101_120000_notes.docx'' ''notes.docx''
               ''2024-01-01T12:00:00.000001'' 3)) \<in> set (metadata ex_orphan_vault)
   \<and> endswith ''alice_20240101_120000_notes.docx.json'' ''.json''
   \<and> get_all_files ex_orphan_vault =
       Inr [ex_record ''alice_20240101_120000_notes.docx'' ''notes.docx''
              ''2024-01-01T12:00:00.000001'' 3]
   \<and> get_all_files (ex_orphan_vault\<lparr>uploads := []\<rparr>) =
       Inr [ex_record ''alice_20240101_120000_notes.docx'' ''notes.docx''
              ''2024-01-01T12:00:00.000001'' 3]"
proof -
  let ?r = "ex_record ''alice_20240101_120000_notes.docx'' ''notes.docx''
              ''2024-01-01T12:00:00.000001'' 3"
  have a: "(''alice_20240101_120000_notes.docx.json'', Parsed ?r) \<in> set (metadata ex_orphan_vault)"
    by (simp add: ex_orphan_vault_def)
  have b: "endswith ''alice_20240101_120000_notes.docx.json'' ''.json''"
    by (simp add: endswith_def)
  have c: "get_all_files ex_orphan_vault = Inr [?r]"
    by (simp add: get_all_files_def sort_reverse_def ex_orphan_vault_def ex_record_def
        endswith_def)
  show ?thesis
    using a b c listing_ignores_blobs [OF a b c, of "[]"] by simp
qed

subsection \<open>C7: damaged metadata files\<close>

text \<open>
  C7 says that damaged entries do not abort the listing and are reported to the caller.
  The first half holds; the second does not: \<open>get_all_files\<close> returns the list of records
  and nothing else, so a vault with a damaged metadata file and the same vault without it
  give the same listing and the same page.
\<close>

theorem damaged_not_reported_counterexample:
  "map_of (metadata ex_damaged_vault) ''alice_20240103_100000_cut.pdf.json'' = Some Damaged
   \<and> map_of (metadata ex_vault) ''alice_20240103_100000_cut.pdf.json'' = None
   \<and> get_all_files ex_damaged_vault =
       Inr [ex_record ''alice_20240102_090000_scan.png'' ''scan.png''
              ''2024-01-02T09:00:00.000001'' 2,
            ex_record ''alice_20240101_120000_notes.docx'' ''notes.docx''
              ''2024-01-01T12:00:00.000001'' 3]
   \<and> get_all_files ex_damaged_vault = get_all_files ex_vault
   \<and> home (Some ex_viewer) ex_damaged_vault = home (Some ex_viewer) ex_vault"
  by (simp add: home_def get_all_files_def sort_reverse_def ex_damaged_vault_def ex_vault_def
      ex_record_def endswith_def sort_key_of_def less_eq_char_def less_char_def)

text \<open>
  C7, as the code has it: when every metadata file that parses holds a well-formed
  record, the listing succeeds whatever the number of damaged files; it is a
  rearrangement of the well-formed records, as many as there are \<open>.json\<close> files that are
  not damaged; and it is the listing of the vault without the damaged files, which are
  skipped without a trace.
\<close>

theorem damaged_entries_skipped:
  assumes "list_all well_formed (load_all (metadata st))"
  shows "\<exists>files. get_all_files st = Inr files
           \<and> mset files = mset (load_all (metadata st))
           \<and> length files =
               length (filter (\<lambda>e. endswith (fst e) ''.json'' \<and> snd e \<noteq> Damaged) (metadata st))
           \<and> get_all_files (st\<lparr>metadata := filter (\<lambda>e. snd e \<noteq> Damaged) (metadata st)\<rparr>) =
               Inr files"
proof -
  let ?files = "rev (sort_key upload_date (rev (load_all (metadata st))))"
  have r: "get_all_files st = Inr ?files"
    using sort_reverse_well_formed [OF assms] by (simp add: get_all_files_def)
  have m: "mset ?files = mset (load_all (metadata st))"
    by simp
  have l: "length ?files =
      length (filter (\<lambda>e. endswith (fst e) ''.json'' \<and> snd e \<noteq> Damaged) (metadata st))"
    by (simp add: length_load_all)
  have c: "get_all_files (st\<lparr>metadata := filter (\<lambda>e. snd e \<noteq> Damaged) (metadata st)\<rparr>) =
      Inr ?files"
    using r by (simp add: get_all_files_def load_all_skip_damaged)
  show ?thesis
    using r m l c by blast
qed

theorem damaged_entries_skipped_witness:
  "list_all well_formed (load_all (metadata ex_damaged_vault))
   \<and> (\<exists>files. get_all_files ex_damaged_vault = Inr files
           \<and> mset files = mset (load_all (metadata ex_damaged_vault))
           \<and> length files =
               length (filter (\<lambda>e. endswith (fst e) ''.json'' \<and> snd e \<noteq> Damaged)
                         (metadata ex_damaged_vault))
           \<and> get_all_files (ex_damaged_vault\<lparr>metadata :=
                 filter (\<lambda>e. snd e \<noteq> Damaged) (metadata ex_damaged_vault)\<rparr>) = Inr files)"
proof -
  have h: "list_all well_formed (load_all (metadata ex_damaged_vault))"
    by (simp add: ex_damaged_vault_def ex_vault_def ex_record_def endswith_def well_formed_def)
  show ?thesis
    using h damaged_entries_skipped [OF h] by blast
qed

subsection \<open>C8: upload, then download\<close>

text \<open>
  C8: for an admin principal with an email, a file name that \<open>allowed_file\<close> accepts and
  any content, the upload succeeds, and a download of the name it stored the file under,
  by any logged-in principal, sends exactly the uploaded content, as an attachment whose
  name is the sanitized file name (and with the content type that the host guesses from
  that name). For \<open>report.pdf\<close> that name is \<open>report.pdf\<close>.
\<close>

theorem upload_download_round_trip:
  assumes "is_admin u" and "preferred_username u = Some email" and "allowed_file (up_filename f)"
  shows "fst (upload_file ev (Some u) (Some f) st) = Redirect_home
       \<and> download_file gt (Some v) (snd (upload_file ev (Some u) (Some f) st))
           (upload_name email (now_stamp ev) (secure_filename ev (up_filename f))) =
         Send_file (up_content f) True (secure_filename ev (up_filename f))
           (guessed_mimetype gt (secure_filename ev (up_filename f)))"
  by (simp add: upload_file_admin [OF assms] Let_def download_file_def get_file_metadata_def
      send_file_def update_conv')

theorem upload_download_round_trip_witness:
  "is_admin ex_admin \<and> preferred_username ex_admin = Some ''alice@example.com''
   \<and> allowed_file (up_filename ex_report)
   \<and> up_filename ex_report = ''report.pdf''
   \<and> fst (upload_file ex_env (Some ex_admin) (Some ex_report) ex_vault) = Redirect_home
   \<and> download_file ex_guess_type (Some ex_viewer)
        (snd (upload_file ex_env (Some ex_admin) (Some ex_report) ex_vault))
        ''alice_20240101_120000_report.pdf'' =
      Send_file [1, 2, 3] True ''report.pdf'' ''application/pdf''"
proof -
  have n: "up_content ex_report = [1, 2, 3]"
    by (simp add: ex_report_def)
  have m: "up_filename ex_report = ''report.pdf''"
    by (simp add: ex_report_def)
  show ?thesis
    using ex_admin_is_admin ex_admin_email ex_report_allowed m
      upload_download_round_trip [OF ex_admin_is_admin ex_admin_email ex_report_allowed,
        where ev = ex_env and st = ex_vault and gt = ex_guess_type and v = ex_viewer]
    by (simp add: ex_report_secure [unfolded m] ex_upload_name n ex_report_pdf_type)
qed

subsection \<open>C9: the order of the listing\<close>

text \<open>
  C9 says that records of the same upload date are listed with the smaller name first.
  The sort has no second key: two records of the same instant stay in the order of the
  directory listing, here with the greater name first.
\<close>

theorem tie_order_counterexample:
  "get_all_files ex_tie_vault =
     Inr [ex_record ''bob_20240101_120000_b.txt'' ''b.txt'' ''2024-01-01T12:00:00'' 1,
          ex_record ''alice_20240101_120000_a.txt'' ''a.txt'' ''2024-01-01T12:00:00'' 1]
   \<and> ''alice_20240101_120000_a.txt'' < ''bob_20240101_120000_b.txt''"
  by (simp add: get_all_files_def sort_reverse_def ex_tie_vault_def ex_record_def endswith_def
      sort_key_of_def less_char_def)

text \<open>
  C9, as the code has it: over well-formed records the listing is ordered by
  \<open>upload_date\<close>, greatest first, and the records of one upload date keep the order in
  which the directory listing enumerates them.
\<close>

theorem newest_first_stable:
  assumes "list_all well_formed (load_all (metadata st))"
  shows "\<exists>files. get_all_files st = Inr files
           \<and> sorted_wrt (\<lambda>x y. upload_date y \<le> upload_date x) files
           \<and> (\<forall>d. filter (\<lambda>x. upload_date x = d) files =
                    filter (\<lambda>x. upload_date x = d) (load_all (metadata st)))"
proof -
  let ?xs = "load_all (metadata st)"
  let ?files = "rev (sort_key upload_date (rev ?xs))"
  have r: "get_all_files st = Inr ?files"
    using sort_reverse_well_formed [OF assms] by (simp add: get_all_files_def)
  have "sorted (map upload_date (sort_key upload_date (rev ?xs)))"
    by (rule sorted_sort_key)
  then have s: "sorted_wrt (\<lambda>x y. upload_date y \<le> upload_date x) ?files"
    by (simp add: sorted_map sorted_wrt_rev)
  have t: "filter (\<lambda>x. upload_date x = d) ?files = filter (\<lambda>x. upload_date x = d) ?xs" for d
  proof -
    have "filter (\<lambda>x. upload_date x = d) ?files =
        rev (filter (\<lambda>x. upload_date x = d) (sort_key upload_date (rev ?xs)))"
      by (simp add: rev_filter)
    also have "\<dots> = rev (filter (\<lambda>x. upload_date x = d) (rev ?xs))"
      by (simp add: sort_key_stable)
    also have "\<dots> = filter (\<lambda>x. upload_date x = d) ?xs"
      by (simp add: rev_filter)
    finally show ?thesis .
  qed
  show ?thesis
    using r s t by blast
qed

theorem newest_first_stable_witness:
  "list_all well_formed (load_all (metadata ex_tie_vault))
   \<and> (\<exists>files. get_all_files ex_tie_vault = Inr files
           \<and> sorted_wrt (\<lambda>x y. upload_date y \<le> upload_date x) files
           \<and> (\<forall>d. filter (\<lambda>x. upload_date x = d) files =
                    filter (\<lambda>x. upload_date x = d) (load_all (metadata ex_tie_vault))))"
proof -
  have h: "list_all well_formed (load_all (metadata ex_tie_vault))"
    by (simp add: ex_tie_vault_def ex_record_def endswith_def well_formed_def)
  show ?thesis
    using h newest_first_stable [OF h] by blast
qed

subsection \<open>C10: deleting a record whose file is gone\<close>

text \<open>
  C10: when an admin deletes a name whose metadata file holds a record and whose file is
  already absent, \<open>delete_file\<close> answers with success, the metadata file is removed, and
  the upload folder is as it was.
\<close>

theorem delete_metadata_only:
  assumes "is_admin u"
    and "map_of (metadata st) (filename @ ''.json'') = Some (Parsed m)" and "truthy m"
    and "map_of (uploads st) filename = None"
  shows "delete_file (Some u) st filename =
           (Jsonify True None 200,
            st\<lparr>metadata := AList.delete (filename @ ''.json'') (metadata st)\<rparr>)
       \<and> map_of (metadata (snd (delete_file (Some u) st filename))) (filename @ ''.json'') = None
       \<and> uploads (snd (delete_file (Some u) st filename)) = uploads st"
  using assms by (simp add: delete_file_def get_file_metadata_def delete_conv')

theorem delete_metadata_only_witness:
  "is_admin ex_admin
   \<and> map_of (metadata ex_orphan_vault) (''alice_20240101_120000_notes.docx'' @ ''.json'') =
       Some (Parsed (ex_record ''alice_20240101_120000_notes.docx'' ''notes.docx''
                      ''2024-01-01T12:00:00.000001'' 3))
   \<and> truthy (ex_record ''alice_20240101_120000_notes.docx'' ''notes.docx''
                      ''2024-01-01T12:00:00.000001'' 3)
   \<and> map_of (uploads ex_orphan_vault) ''alice_20240101_120000_notes.docx'' = None
   \<and> delete_file (Some ex_admin) ex_orphan_vault ''alice_20240101_120000_notes.docx'' =
       (Jsonify True None 200, empty_vault)"
proof -
  have b: "map_of (metadata ex_orphan_vault) (''alice_20240101_120000_notes.docx'' @ ''.json'') =
       Some (Parsed (ex_record ''alice_20240101_120000_notes.docx'' ''notes.docx''
                      ''2024-01-01T12:00:00.000001'' 3))"
    by (simp add: ex_orphan_vault_def)
  have c: "truthy (ex_record ''alice_20240101_120000_notes.docx'' ''notes.docx''
                      ''2024-01-01T12:00:00.000001'' 3)"
    by (simp add: ex_record_def)
  have d: "map_of (uploads ex_orphan_vault) ''alice_20240101_120000_notes.docx'' = None"
    by (simp add: ex_orphan_vault_def)
  show ?thesis
    using ex_admin_is_admin b c d delete_metadata_only [OF ex_admin_is_admin b c d]
    by (simp add: ex_orphan_vault_def empty_vault_def AList.delete_eq)
qed

end
